theory Spec2Isabelle
  imports Complex_Main "HOL-Library.Multiset"
begin

section \<open>Common Python notions\<close>

text \<open>
  The scripts are Python. Exceptions are values of \<open>py_error\<close>; a computation that can
  raise returns \<open>py_error + 'a\<close> with \<open>Inl\<close> for the raised exception. Python floats
  are idealised as real numbers: only their order and sign are used below, except in
  \<open>estimate_phonon_energy\<close>.
\<close>

datatype py_error =
    KeyError string
  | IndexError
  | ZeroDivisionError
  | ValueError
  | RuntimeError string
  | FileNotFoundError
  | NeighborError

text \<open>
  The neighbour oracle \<open>self.cnn.get_nn_info(structure, i)\<close> of the crystallography
  library: for atom \<open>i\<close> it raises, or returns neighbour records, of which the code
  reads \<open>site_index\<close> and \<open>weight\<close>.
\<close>

type_synonym nn_oracle = "nat \<Rightarrow> py_error + (nat \<times> real) list"

section \<open>parity\_check.py: the connectivity graph\<close>

text \<open>
  \<open>nx.Graph\<close>: nodes in insertion order, and every undirected edge stored once with
  its \<open>distance\<close> attribute. Node attributes (element, coordinates) are never read by
  the analysis and are left out.
\<close>

record nxgraph =
  g_nodes :: "nat list"
  g_edges :: "(nat \<times> nat \<times> real) list"

definition empty_graph :: nxgraph where
  "empty_graph = \<lparr>g_nodes = [], g_edges = []\<rparr>"

definition add_node :: "nat \<Rightarrow> nxgraph \<Rightarrow> nxgraph" where
  "add_node n G = (if n \<in> set (g_nodes G) then G else G\<lparr>g_nodes := g_nodes G @ [n]\<rparr>)"

definition joins :: "nat \<Rightarrow> nat \<Rightarrow> nat \<times> nat \<times> real \<Rightarrow> bool" where
  "joins u v e = ((fst e = u \<and> fst (snd e) = v) \<or> (fst e = v \<and> fst (snd e) = u))"

definition has_edge :: "nat \<Rightarrow> nat \<Rightarrow> nxgraph \<Rightarrow> bool" where
  "has_edge u v G = list_ex (joins u v) (g_edges G)"

text \<open>\<open>G.add_edge(u, v, distance=d)\<close> adds missing end points as nodes; on an edge
  that is already there it only overwrites the attribute.\<close>

definition add_edge :: "nat \<Rightarrow> nat \<Rightarrow> real \<Rightarrow> nxgraph \<Rightarrow> nxgraph" where
  "add_edge u v d G =
     (let G1 = add_node v (add_node u G) in
      if has_edge u v G1
      then G1\<lparr>g_edges := map (\<lambda>e. if joins u v e then (fst e, fst (snd e), d) else e) (g_edges G1)\<rparr>
      else G1\<lparr>g_edges := g_edges G1 @ [(u, v, d)]\<rparr>)"

text \<open>\<open>G.degree()\<close>: the number of edge ends at a node, so a self-loop counts twice.\<close>

definition degree :: "nxgraph \<Rightarrow> nat \<Rightarrow> nat" where
  "degree G n = length (filter (\<lambda>e. fst e = n) (g_edges G))
              + length (filter (\<lambda>e. fst (snd e) = n) (g_edges G))"

definition number_of_nodes :: "nxgraph \<Rightarrow> nat" where
  "number_of_nodes G = length (g_nodes G)"

definition number_of_edges :: "nxgraph \<Rightarrow> nat" where
  "number_of_edges G = length (g_edges G)"

text \<open>The body of the inner loop of \<open>build_connectivity_graph\<close>, for one neighbour
  record of atom \<open>i\<close>.\<close>

definition add_neighbor :: "real \<Rightarrow> nat \<Rightarrow> nat \<times> real \<Rightarrow> nxgraph \<Rightarrow> nxgraph" where
  "add_neighbor cutoff_distance i neighbor G =
     (let j = fst neighbor; distance = snd neighbor in
      if distance \<le> cutoff_distance \<and> \<not> has_edge i j G then add_edge i j distance G else G)"

text \<open>The \<open>try\<close> block for atom \<open>i\<close>: an exception of the oracle is caught and the
  atom is skipped.\<close>

definition add_site_edges :: "nn_oracle \<Rightarrow> real \<Rightarrow> nat \<Rightarrow> nxgraph \<Rightarrow> nxgraph" where
  "add_site_edges nn cutoff_distance i G =
     (case nn i of
        Inl e \<Rightarrow> G
      | Inr neighbors \<Rightarrow> fold (add_neighbor cutoff_distance i) neighbors G)"

text \<open>A structure is given by the \<open>species_string\<close> of each of its sites, in order.\<close>

definition build_connectivity_graph :: "string list \<Rightarrow> nn_oracle \<Rightarrow> real \<Rightarrow> nxgraph" where
  "build_connectivity_graph structure nn cutoff_distance =
     fold (add_site_edges nn cutoff_distance) [0..<length structure]
       (fold add_node [0..<length structure] empty_graph)"

section \<open>parity\_check.py: the parity parameter\<close>

record degree_stats =
  total_vertices :: nat
  total_edges :: nat
  min_degree :: nat
  max_degree :: nat
  avg_degree :: real
  odd_degree_count :: nat
  even_degree_count :: nat

text \<open>Python's \<open>min\<close> and \<open>max\<close> raise ValueError on an empty sequence.\<close>

definition py_min :: "('a::linorder) list \<Rightarrow> py_error + 'a" where
  "py_min xs = (case xs of [] \<Rightarrow> Inl ValueError | x # r \<Rightarrow> Inr (fold min r x))"

definition py_max :: "('a::linorder) list \<Rightarrow> py_error + 'a" where
  "py_max xs = (case xs of [] \<Rightarrow> Inl ValueError | x # r \<Rightarrow> Inr (fold max r x))"

definition np_mean :: "nat list \<Rightarrow> real" where
  "np_mean xs = real (sum_list xs) / real (length xs)"

definition calculate_parity :: "nxgraph \<Rightarrow> py_error + (nat \<times> nat list \<times> degree_stats)" where
  "calculate_parity graph =
     (let degrees = map (\<lambda>n. (n, degree graph n)) (g_nodes graph);
          degree_values = map snd degrees;
          odd_vertices = map fst (filter (\<lambda>nd. snd nd mod 2 = 1) degrees);
          K = length odd_vertices
      in case (if degree_values \<noteq> [] then py_min degree_values else Inr 0) of
           Inl e \<Rightarrow> Inl e
         | Inr mn \<Rightarrow>
             (case (if degree_values \<noteq> [] then py_max degree_values else Inr 0) of
                Inl e \<Rightarrow> Inl e
              | Inr mx \<Rightarrow>
                  Inr (K, odd_vertices,
                       \<lparr>total_vertices = number_of_nodes graph,
                        total_edges = number_of_edges graph,
                        min_degree = mn,
                        max_degree = mx,
                        avg_degree = (if degree_values \<noteq> [] then np_mean degree_values else 0),
                        odd_degree_count = K,
                        even_degree_count = length degree_values - K\<rparr>)))"

record parity_results =
  pr_formula :: string
  K_parity :: nat
  passes_parity_test :: bool
  odd_vertices :: "nat list"
  graph_stats :: degree_stats

text \<open>\<open>RBTParityChecker.analyze_structure\<close> after the structure has been loaded.\<close>

definition parity_analyze_structure ::
  "string \<Rightarrow> string list \<Rightarrow> nn_oracle \<Rightarrow> real \<Rightarrow> py_error + parity_results" where
  "parity_analyze_structure formula structure nn cutoff_distance =
     (let graph = build_connectivity_graph structure nn cutoff_distance in
      case calculate_parity graph of
        Inl e \<Rightarrow> Inl e
      | Inr (K, odd_vs, stats) \<Rightarrow>
          Inr \<lparr>pr_formula = formula, K_parity = K, passes_parity_test = (K = 0),
               odd_vertices = odd_vs, graph_stats = stats\<rparr>)"

section \<open>bond\_quantum.py: the light-bond selector\<close>

definition LIGHT_ATOMS :: "string set" where
  "LIGHT_ATOMS = {''H'', ''He'', ''Li'', ''Be'', ''B'', ''C'', ''N'', ''O'', ''F'', ''Ne''}"

text \<open>The bond dictionary built in \<open>find_light_atom_bonds\<close>.\<close>

record bond =
  atom1_idx :: nat
  atom2_idx :: nat
  atom1_element :: string
  atom2_element :: string
  distance :: real
  reduced_mass :: real
  bond_type :: string
  both_light :: bool

text \<open>The same dictionary after \<open>analyze_structure\<close> has stored the two energies in it.\<close>

record ebond = bond +
  phonon_energy_eV :: real
  phonon_energy_meV :: real

text \<open>
  \<open>Element(symbol).atomic_mass\<close> is a table of the crystallography library, taken as a
  parameter: \<open>None\<close> where the lookup raises. Any exception in
  \<open>_calculate_reduced_mass\<close>, the division by zero included, gives the fallback 1.0.
\<close>

type_synonym mass_table = "string \<Rightarrow> real option"

definition calculate_reduced_mass :: "mass_table \<Rightarrow> string \<Rightarrow> string \<Rightarrow> real" where
  "calculate_reduced_mass atomic_mass element1 element2 =
     (case atomic_mass element1 of
        None \<Rightarrow> 1
      | Some m1 \<Rightarrow>
          (case atomic_mass element2 of
             None \<Rightarrow> 1
           | Some m2 \<Rightarrow> if m1 + m2 = 0 then 1 else (m1 * m2) / (m1 + m2)))"

definition make_bond :: "mass_table \<Rightarrow> string list \<Rightarrow> nat \<Rightarrow> string \<Rightarrow> nat \<times> real \<Rightarrow> bond" where
  "make_bond atomic_mass structure i element neighbor =
     (let j = fst neighbor;
          neighbor_element = structure ! j
      in \<lparr>atom1_idx = i,
          atom2_idx = j,
          atom1_element = element,
          atom2_element = neighbor_element,
          distance = snd neighbor,
          reduced_mass = calculate_reduced_mass atomic_mass element neighbor_element,
          bond_type = element @ ''-'' @ neighbor_element,
          both_light = (element \<in> LIGHT_ATOMS \<and> neighbor_element \<in> LIGHT_ATOMS)\<rparr>)"

text \<open>
  The loop over the neighbours of atom \<open>i\<close>, inside the \<open>try\<close>: \<open>structure[j]\<close> raises
  IndexError for an index outside the structure, which ends the loop for this atom; the
  bonds appended before stay in the list.
\<close>

fun neighbor_bonds ::
  "mass_table \<Rightarrow> string list \<Rightarrow> nat \<Rightarrow> string \<Rightarrow> (nat \<times> real) list \<Rightarrow> bond list" where
  "neighbor_bonds atomic_mass structure i element [] = []"
| "neighbor_bonds atomic_mass structure i element (neighbor # rest) =
     (if fst neighbor < length structure
      then make_bond atomic_mass structure i element neighbor
             # neighbor_bonds atomic_mass structure i element rest
      else [])"

definition site_bonds ::
  "mass_table \<Rightarrow> string list \<Rightarrow> nn_oracle \<Rightarrow> nat \<times> string \<Rightarrow> bond list" where
  "site_bonds atomic_mass structure nn site =
     (let i = fst site; element = snd site in
      if element \<notin> LIGHT_ATOMS then []
      else (case nn i of
              Inl e \<Rightarrow> []
            | Inr neighbors \<Rightarrow> neighbor_bonds atomic_mass structure i element neighbors))"

text \<open>The list \<open>light_bonds\<close> at the end of the first loop.\<close>

definition collect_light_bonds :: "mass_table \<Rightarrow> string list \<Rightarrow> nn_oracle \<Rightarrow> bond list" where
  "collect_light_bonds atomic_mass structure nn =
     concat (map (site_bonds atomic_mass structure nn) (enumerate 0 structure))"

text \<open>\<open>tuple(sorted([bond['atom1_idx'], bond['atom2_idx']]))\<close>\<close>

definition bond_pair :: "'a bond_scheme \<Rightarrow> nat \<times> nat" where
  "bond_pair b = (min (atom1_idx b) (atom2_idx b), max (atom1_idx b) (atom2_idx b))"

text \<open>The second loop, with the set \<open>seen_pairs\<close>.\<close>

fun unique_loop :: "bond list \<Rightarrow> (nat \<times> nat) set \<Rightarrow> bond list" where
  "unique_loop [] seen_pairs = []"
| "unique_loop (b # bs) seen_pairs =
     (if bond_pair b \<notin> seen_pairs
      then b # unique_loop bs (insert (bond_pair b) seen_pairs)
      else unique_loop bs seen_pairs)"

definition find_light_atom_bonds :: "mass_table \<Rightarrow> string list \<Rightarrow> nn_oracle \<Rightarrow> bond list" where
  "find_light_atom_bonds atomic_mass structure nn =
     unique_loop (collect_light_bonds atomic_mass structure nn) {}"

section \<open>bond\_quantum.py: the phonon-energy estimate and the analysis\<close>

definition HBAR :: real where
  "HBAR = 6.582119569 / 10 ^ 16"

text \<open>
  The arithmetic of \<open>estimate_phonon_energy\<close> on real numbers. Python's float division
  raises ZeroDivisionError on a zero divisor. The rounding, overflow and nan of IEEE
  doubles are not represented: the statements below use this function only through the
  order of its results.
\<close>

definition estimate_phonon_energy :: "real \<Rightarrow> real \<Rightarrow> py_error + real" where
  "estimate_phonon_energy bond_distance mu_amu =
     (let r_angstrom = bond_distance;
          force_constant_scale = 100
      in if r_angstrom ^ 2 = 0 then Inl ZeroDivisionError
         else
           (let k_force = force_constant_scale / (r_angstrom ^ 2);
                amu_to_ev_per_ang2 = 1.036427 / 10 ^ 4;
                mu_ev_units = mu_amu * amu_to_ev_per_ang2
            in if mu_ev_units = 0 then Inl ZeroDivisionError
               else
                 (let omega = sqrt (k_force / mu_ev_units);
                      energy_meV = (HBAR * omega / pi) * 1000;
                      energy_eV = energy_meV / 1000
                  in Inr energy_eV)))"

definition with_energy :: "bond \<Rightarrow> real \<Rightarrow> ebond" where
  "with_energy b e =
     \<lparr>atom1_idx = atom1_idx b, atom2_idx = atom2_idx b,
      atom1_element = atom1_element b, atom2_element = atom2_element b,
      distance = distance b, reduced_mass = reduced_mass b,
      bond_type = bond_type b, both_light = both_light b,
      phonon_energy_eV = e, phonon_energy_meV = e * 1000\<rparr>"

text \<open>The loop that stores the energies; it stops at the first exception.\<close>

fun set_energies :: "bond list \<Rightarrow> py_error + ebond list" where
  "set_energies [] = Inr []"
| "set_energies (b # bs) =
     (case estimate_phonon_energy (distance b) (reduced_mass b) of
        Inl e \<Rightarrow> Inl e
      | Inr en \<Rightarrow>
          (case set_energies bs of
             Inl e \<Rightarrow> Inl e
           | Inr ebs \<Rightarrow> Inr (with_energy b en # ebs)))"

text \<open>Values of the result dictionary, and the dictionary with its keys in order.\<close>

datatype pyval =
    PNone
  | PBool bool
  | PNum real
  | PStr string
  | PBond ebond
  | PBondList "ebond list"

type_synonym pydict = "(string \<times> pyval) list"

definition getitem :: "pydict \<Rightarrow> string \<Rightarrow> py_error + pyval" where
  "getitem d k = (case map_of d k of None \<Rightarrow> Inl (KeyError k) | Some v \<Rightarrow> Inr v)"

text \<open>
  \<open>BondQuantumAnalyzer.analyze_structure\<close> after \<open>load_structure\<close> has returned the
  structure with its formula; \<open>threshold_energy\<close> is the attribute of the analyzer.
\<close>

definition bq_analyze_structure ::
  "real \<Rightarrow> mass_table \<Rightarrow> nn_oracle \<Rightarrow> string \<Rightarrow> string \<Rightarrow> string list \<Rightarrow> py_error + pydict" where
  "bq_analyze_structure threshold_energy atomic_mass nn filepath formula structure =
     (let light_bonds = find_light_atom_bonds atomic_mass structure nn in
      if light_bonds = [] then
        Inr [(''filepath'', PStr filepath),
             (''formula'', PStr formula),
             (''light_bonds'', PBondList []),
             (''shortest_bond'', PNone),
             (''phonon_energy_meV'', PNum 0),
             (''phonon_energy_eV'', PNum 0),
             (''passes_energy_test'', PBool False),
             (''critical_bonds'', PBondList [])]
      else
        (case set_energies light_bonds of
           Inl e \<Rightarrow> Inl e
         | Inr with_energies \<Rightarrow>
             (let sorted_bonds = sort_key distance with_energies;
                  critical_bonds = filter (\<lambda>b. phonon_energy_eV b \<ge> threshold_energy) sorted_bonds
              in case sorted_bonds of
                   [] \<Rightarrow> Inl IndexError
                 | shortest_bond # others \<Rightarrow>
                     (case py_max (map phonon_energy_eV sorted_bonds) of
                        Inl e \<Rightarrow> Inl e
                      | Inr max_energy \<Rightarrow>
                          Inr [(''filepath'', PStr filepath),
                               (''formula'', PStr formula),
                               (''light_bonds'', PBondList sorted_bonds),
                               (''shortest_bond'', PBond shortest_bond),
                               (''phonon_energy_meV'', PNum (max_energy * 1000)),
                               (''phonon_energy_eV'', PNum max_energy),
                               (''passes_energy_test'', PBool (max_energy \<ge> threshold_energy)),
                               (''critical_bonds'', PBondList critical_bonds),
                               (''threshold_meV'', PNum (threshold_energy * 1000))]))))"

text \<open>
  \<open>print_results\<close>: the printed text is not modelled, the dictionary lookups are, in the
  order in which the method makes them. A missing key raises KeyError.
\<close>

definition py_bind :: "py_error + 'a \<Rightarrow> ('a \<Rightarrow> py_error + 'b) \<Rightarrow> py_error + 'b" where
  "py_bind m f = (case m of Inl e \<Rightarrow> Inl e | Inr x \<Rightarrow> f x)"

definition truthy :: "pyval \<Rightarrow> bool" where
  "truthy v = (case v of
       PNone \<Rightarrow> False
     | PBool b \<Rightarrow> b
     | PNum x \<Rightarrow> x \<noteq> 0
     | PStr s \<Rightarrow> s \<noteq> []
     | PBond b \<Rightarrow> True
     | PBondList bs \<Rightarrow> bs \<noteq> [])"

definition bq_print_results :: "pydict \<Rightarrow> py_error + unit" where
  "bq_print_results results =
     py_bind (getitem results ''formula'') (\<lambda>formula.
     py_bind (getitem results ''phonon_energy_meV'') (\<lambda>energy.
     py_bind (getitem results ''threshold_meV'') (\<lambda>threshold.
     py_bind (getitem results ''passes_energy_test'') (\<lambda>passes.
     py_bind (getitem results ''shortest_bond'') (\<lambda>shortest.
     py_bind (getitem results ''critical_bonds'') (\<lambda>critical.
     py_bind (getitem results ''light_bonds'') (\<lambda>bonds. Inr ())))))))"

text \<open>
  \<open>main\<close> of bond\_quantum.py, returning the exit code. \<open>threshold_arg\<close> is the value of
  \<open>--threshold\<close> when given, \<open>loaded\<close> what \<open>load_structure\<close> does on the file:
  an exception, or the formula and the sites. Every exception is caught and gives 2.
\<close>

definition bq_main ::
  "real option \<Rightarrow> bool \<Rightarrow> mass_table \<Rightarrow> nn_oracle \<Rightarrow> string
     \<Rightarrow> py_error + (string \<times> string list) \<Rightarrow> nat" where
  "bq_main threshold_arg quiet atomic_mass nn structure_file loaded =
     (let threshold = (case threshold_arg of None \<Rightarrow> 0.081 | Some t \<Rightarrow> t);
          run =
            py_bind loaded (\<lambda>ld.
            py_bind (bq_analyze_structure threshold atomic_mass nn structure_file (fst ld) (snd ld))
              (\<lambda>results.
            py_bind (if \<not> quiet then bq_print_results results else Inr ()) (\<lambda>u.
            py_bind (getitem results ''passes_energy_test'') (\<lambda>passes.
            (let exit_code = (if truthy passes then 0 else 1) in
             if quiet then
               py_bind (getitem results ''phonon_energy_meV'') (\<lambda>energy_meV.
               py_bind (getitem results ''threshold_meV'') (\<lambda>threshold_meV.
               py_bind (getitem results ''passes_energy_test'') (\<lambda>status. Inr exit_code)))
             else Inr exit_code)))))
      in case run of Inl e \<Rightarrow> 2 | Inr exit_code \<Rightarrow> exit_code)"

section \<open>check\_phonon\_stability.py\<close>

text \<open>
  The regular expression \<open>freq\(.*?\)=\s*([\-0-9\.]+)\<close>, searched in a line of ASCII
  text. \<open>is_space\<close> is the class \<open>\s\<close>, \<open>class_char\<close> the class of the group.
\<close>

definition is_space :: "char \<Rightarrow> bool" where
  "is_space c = (c \<in> set [CHR '' '', CHR 0x09, CHR 0x0A, CHR 0x0B, CHR 0x0C, CHR 0x0D,
                           CHR 0x1C, CHR 0x1D, CHR 0x1E, CHR 0x1F])"

definition is_digit :: "char \<Rightarrow> bool" where
  "is_digit c = (c \<in> set ''0123456789'')"

definition class_char :: "char \<Rightarrow> bool" where
  "class_char c = (c = CHR ''-'' \<or> is_digit c \<or> c = CHR ''.'')"

text \<open>\<open>\s*([\-0-9\.]+)\<close> at the start of a string: the group when it matches. No
  character is in both classes, so giving white space back never helps.\<close>

definition match_value :: "string \<Rightarrow> string option" where
  "match_value s =
     (let g = takeWhile class_char (dropWhile is_space s) in
      if g = [] then None else Some g)"

text \<open>\<open>.*?\)=\s*([\-0-9\.]+)\<close> at the start of a string: the lazy quantifier tries the
  rest of the pattern first and takes one more character, never a newline, when that
  fails.\<close>

fun match_lazy :: "string \<Rightarrow> string option" where
  "match_lazy [] = None"
| "match_lazy (c # cs) =
     (case (if take 2 (c # cs) = '')='' then match_value (drop 2 (c # cs)) else None) of
        Some g \<Rightarrow> Some g
      | None \<Rightarrow> if c = CHR 0x0A then None else match_lazy cs)"

text \<open>\<open>FREQ_REGEX.search(line)\<close>: the first position where the pattern matches;
  the result is \<open>m.group(1)\<close>.\<close>

fun FREQ_REGEX_search :: "string \<Rightarrow> string option" where
  "FREQ_REGEX_search [] = None"
| "FREQ_REGEX_search (c # cs) =
     (case (if take 5 (c # cs) = ''freq('' then match_lazy (drop 5 (c # cs)) else None) of
        Some g \<Rightarrow> Some g
      | None \<Rightarrow> FREQ_REGEX_search cs)"

text \<open>
  \<open>float(s)\<close> on a string of the characters of the group: an optional minus sign,
  then digits with at most one point and at least one digit; anything else raises
  ValueError. The value is the decimal read as a real number.
\<close>

definition digits_val :: "string \<Rightarrow> nat" where
  "digits_val ds = foldl (\<lambda>a c. 10 * a + (of_char c - 48)) 0 ds"

definition py_float :: "string \<Rightarrow> py_error + real" where
  "py_float s =
     (let neg = (take 1 s = ''-'');
          body = (if neg then drop 1 s else s);
          sign = (if neg then - 1 else 1);
          ip = takeWhile is_digit body;
          rest = dropWhile is_digit body
      in case rest of
           [] \<Rightarrow> if ip = [] then Inl ValueError else Inr (sign * real (digits_val ip))
         | c # fp \<Rightarrow>
             if c = CHR ''.'' \<and> list_all is_digit fp \<and> (ip \<noteq> [] \<or> fp \<noteq> [])
             then Inr (sign * (real (digits_val ip) + real (digits_val fp) / 10 ^ length fp))
             else Inl ValueError)"

text \<open>The loop over the lines of an open file; an exception of \<open>float\<close> leaves it.\<close>

fun scan_lines :: "string list \<Rightarrow> py_error + real list" where
  "scan_lines [] = Inr []"
| "scan_lines (line # rest) =
     (case FREQ_REGEX_search line of
        None \<Rightarrow> scan_lines rest
      | Some g \<Rightarrow>
          (case py_float g of
             Inl e \<Rightarrow> Inl e
           | Inr w \<Rightarrow>
               (case scan_lines rest of
                  Inl e \<Rightarrow> Inl e
                | Inr ws \<Rightarrow> Inr (w # ws))))"

text \<open>What a path is: nothing, something that cannot be opened, or a text file.\<close>

datatype file_state = Missing | Unreadable | Lines "string list"

definition parse_frequencies :: "(string \<Rightarrow> file_state) \<Rightarrow> string \<Rightarrow> py_error + real list" where
  "parse_frequencies fs path =
     (case fs path of
        Lines ls \<Rightarrow>
          (case scan_lines ls of
             Inl e \<Rightarrow> Inl (RuntimeError ''Cannot read'')
           | Inr freqs \<Rightarrow>
               if freqs = [] then Inl (RuntimeError ''No frequencies found'') else Inr freqs)
      | Missing \<Rightarrow> Inl (RuntimeError ''Cannot read'')
      | Unreadable \<Rightarrow> Inl (RuntimeError ''Cannot read''))"

fun analyse_loop ::
  "(string \<Rightarrow> file_state) \<Rightarrow> string list \<Rightarrow> nat \<times> nat \<times> real \<Rightarrow> py_error + (nat \<times> nat \<times> real)" where
  "analyse_loop fs [] acc = Inr acc"
| "analyse_loop fs (f # files) acc =
     (case parse_frequencies fs f of
        Inl e \<Rightarrow> Inl e
      | Inr freqs \<Rightarrow>
          (case py_min freqs of
             Inl e \<Rightarrow> Inl e
           | Inr m \<Rightarrow>
               analyse_loop fs files
                 (fst acc + length freqs,
                  fst (snd acc) + length (filter (\<lambda>w. w < 0) freqs),
                  min (snd (snd acc)) m)))"

definition analyse_files ::
  "(string \<Rightarrow> file_state) \<Rightarrow> string list \<Rightarrow> py_error + (nat \<times> nat \<times> real)" where
  "analyse_files fs files = analyse_loop fs files (0, 0, 10 ^ 9)"

text \<open>
  \<open>main\<close> of check\_phonon\_stability.py on the arguments after the script name,
  returning the exit code. Only RuntimeError is caught; any other exception would end the
  interpreter with status 1.
\<close>

definition stability_main :: "(string \<Rightarrow> file_state) \<Rightarrow> string list \<Rightarrow> nat" where
  "stability_main fs args =
     (if length args + 1 < 2 then 2
      else if list_ex (\<lambda>p. fs p = Missing) args then 2
      else (case analyse_files fs args of
              Inl (RuntimeError msg) \<Rightarrow> 2
            | Inl other \<Rightarrow> 1
            | Inr res \<Rightarrow> if fst (snd res) = 0 then 0 else 1))"

section \<open>Auxiliary notions for the statements\<close>

text \<open>The unordered pair of end points of an edge, in normal form.\<close>

definition edge_pair :: "nat \<times> nat \<times> real \<Rightarrow> nat \<times> nat" where
  "edge_pair e = (min (fst e) (fst (snd e)), max (fst e) (fst (snd e)))"

text \<open>The number of edges incident to a node, every edge counted once.\<close>

definition incident_edges :: "nxgraph \<Rightarrow> nat \<Rightarrow> nat" where
  "incident_edges G n = length (filter (\<lambda>e. fst e = n \<or> fst (snd e) = n) (g_edges G))"

text \<open>The oracle, asked for atom \<open>i\<close>, returns a record for atom \<open>j\<close> within the
  cutoff.\<close>

definition reports :: "nn_oracle \<Rightarrow> real \<Rightarrow> nat \<Rightarrow> nat \<Rightarrow> bool" where
  "reports nn cutoff_distance i j =
     (\<exists>neighbors d. nn i = Inr neighbors \<and> (j, d) \<in> set neighbors \<and> d \<le> cutoff_distance)"

text \<open>The frequencies \<open>parse_frequencies\<close> returns for a file, none when it raises.\<close>

definition file_freqs :: "(string \<Rightarrow> file_state) \<Rightarrow> string \<Rightarrow> real list" where
  "file_freqs fs p = (case parse_frequencies fs p of Inl e \<Rightarrow> [] | Inr freqs \<Rightarrow> freqs)"

section \<open>Concrete structures\<close>

text \<open>A cell with a single atom whose neighbours are its own periodic images.\<close>

definition po_oracle :: nn_oracle where
  "po_oracle i = Inr [(0, 3.35)]"

definition po_graph :: nxgraph where
  "po_graph = build_connectivity_graph [''Po''] po_oracle 3.5"

text \<open>A chain of three carbon atoms.\<close>

definition chain_oracle :: nn_oracle where
  "chain_oracle i =
     (if i = 0 then Inr [(1, 1.5)]
      else if i = 1 then Inr [(0, 1.5), (2, 1.5)]
      else if i = 2 then Inr [(1, 1.5)]
      else Inl NeighborError)"

definition chain_graph :: nxgraph where
  "chain_graph = build_connectivity_graph [''C'', ''C'', ''C''] chain_oracle 3.5"

text \<open>Atomic masses of three elements; two atoms that are each other's only neighbour,
  at distance 2; and the bonds the selector builds for them.\<close>

definition example_masses :: mass_table where
  "example_masses el =
     (if el = ''H'' then Some 1.008
      else if el = ''Li'' then Some 6.94
      else if el = ''Fe'' then Some 55.845
      else None)"

definition pair_oracle :: nn_oracle where
  "pair_oracle i =
     (if i = 0 then Inr [(1, 2)] else if i = 1 then Inr [(0, 2)] else Inl NeighborError)"



definition li_fe_bond :: bond where
  "li_fe_bond = \<lparr>atom1_idx = 0, atom2_idx = 1, atom1_element = ''Li'', atom2_element = ''Fe'',
      distance = 2, reduced_mass = 3875643 / 627850, bond_type = ''Li-Fe'', both_light = False\<rparr>"

text \<open>A lithium atom with two hydrogen neighbours, the farther one reported first.\<close>

definition star_oracle :: nn_oracle where
  "star_oracle i =
     (if i = 0 then Inr [(1, 3), (2, 1.5)]
      else if i = 1 then Inr [(0, 3)]
      else if i = 2 then Inr [(0, 1.5)]
      else Inl NeighborError)"

definition long_bond :: bond where
  "long_bond = \<lparr>atom1_idx = 0, atom2_idx = 1, atom1_element = ''Li'', atom2_element = ''H'',
      distance = 3, reduced_mass = 43722 / 49675, bond_type = ''Li-H'', both_light = True\<rparr>"

definition short_bond :: bond where
  "short_bond = \<lparr>atom1_idx = 0, atom2_idx = 2, atom1_element = ''Li'', atom2_element = ''H'',
      distance = 1.5, reduced_mass = 43722 / 49675, bond_type = ''Li-H'', both_light = True\<rparr>"

text \<open>Some files: frequency lines with and without a blank before the equals sign,
  a line as ph.x prints it, and a file without frequencies.\<close>

definition dyn_files :: "string \<Rightarrow> file_state" where
  "dyn_files p =
     (if p = ''spaced.dyn'' then Lines [''freq(1) = -3.0 [cm-1]'']
      else if p = ''tight.dyn'' then Lines [''freq(1)= -3.0 [cm-1]'', ''freq(2)= 4.5'']
      else if p = ''stable.dyn'' then Lines [''freq(1)= 0.0'', ''freq(2)= 4.5'']
      else if p = ''qe.dyn'' then Lines [''     freq (    1) =      -0.500000 [THz] =     -16.68 [cm-1]'']
      else if p = ''text.dyn'' then Lines [''Dynamical matrix file'', ''no modes'']
      else Missing)"

section \<open>Properties of the connectivity graph\<close>

lemma joins_edge_pair: "joins u v e \<longleftrightarrow> edge_pair e = (min u v, max u v)"
  by (auto simp: joins_def edge_pair_def min_def max_def)

lemma has_edge_iff: "has_edge u v G \<longleftrightarrow> (min u v, max u v) \<in> edge_pair ` set (g_edges G)"
  by (force simp: has_edge_def list_ex_iff joins_edge_pair image_iff)

lemma has_edge_sym: "has_edge u v G = has_edge v u G"
  by (auto simp: has_edge_def list_ex_iff joins_def)

lemma add_node_edges [simp]: "g_edges (add_node n G) = g_edges G"
  by (simp add: add_node_def)

lemma has_edge_add_node [simp]: "has_edge u v (add_node n G) = has_edge u v G"
  by (simp add: has_edge_def)

lemma fold_add_node_edges [simp]: "g_edges (fold add_node ns G) = g_edges G"
  by (induction ns arbitrary: G) simp_all

lemma add_edge_new_edges:
  "\<not> has_edge u v G \<Longrightarrow> g_edges (add_edge u v d G) = g_edges G @ [(u, v, d)]"
  by (simp add: add_edge_def Let_def)

subsection \<open>No unordered pair is joined twice\<close>

lemma add_neighbor_simple:
  "distinct (map edge_pair (g_edges G)) \<Longrightarrow>
   distinct (map edge_pair (g_edges (add_neighbor c i nb G)))"
  by (auto simp: add_neighbor_def Let_def add_edge_new_edges has_edge_iff edge_pair_def)

lemma fold_add_neighbor_simple:
  "distinct (map edge_pair (g_edges G)) \<Longrightarrow>
   distinct (map edge_pair (g_edges (fold (add_neighbor c i) ns G)))"
  by (induction ns arbitrary: G) (simp_all add: add_neighbor_simple)

lemma add_site_edges_simple:
  "distinct (map edge_pair (g_edges G)) \<Longrightarrow>
   distinct (map edge_pair (g_edges (add_site_edges nn c i G)))"
  by (simp add: add_site_edges_def fold_add_neighbor_simple split: sum.splits)

lemma fold_add_site_edges_simple:
  "distinct (map edge_pair (g_edges G)) \<Longrightarrow>
   distinct (map edge_pair (g_edges (fold (add_site_edges nn c) is G)))"
  by (induction "is" arbitrary: G) (simp_all add: add_site_edges_simple)

lemma build_simple: "distinct (map edge_pair (g_edges (build_connectivity_graph s nn c)))"
  unfolding build_connectivity_graph_def
  by (rule fold_add_site_edges_simple) (simp add: empty_graph_def)

subsection \<open>The nodes are the atoms\<close>

lemma fold_add_node_upt: "g_nodes (fold add_node [0..<n] empty_graph) = [0..<n]"
proof (induction n)
  case 0
  then show ?case by (simp add: empty_graph_def)
next
  case (Suc n)
  then show ?case by (simp add: add_node_def)
qed

lemma add_node_present: "n \<in> set (g_nodes G) \<Longrightarrow> add_node n G = G"
  by (simp add: add_node_def)

lemma add_edge_nodes_present:
  "u \<in> set (g_nodes G) \<Longrightarrow> v \<in> set (g_nodes G) \<Longrightarrow> g_nodes (add_edge u v d G) = g_nodes G"
  by (simp add: add_edge_def Let_def add_node_present)

lemma add_neighbor_nodes:
  "i \<in> set (g_nodes G) \<Longrightarrow> fst nb \<in> set (g_nodes G) \<Longrightarrow>
   g_nodes (add_neighbor c i nb G) = g_nodes G"
  by (simp add: add_neighbor_def Let_def add_edge_nodes_present)

lemma fold_add_neighbor_nodes:
  "i \<in> set (g_nodes G) \<Longrightarrow> \<forall>nb\<in>set ns. fst nb \<in> set (g_nodes G) \<Longrightarrow>
   g_nodes (fold (add_neighbor c i) ns G) = g_nodes G"
  by (induction ns arbitrary: G) (simp_all add: add_neighbor_nodes)

lemma add_site_edges_nodes:
  "i \<in> set (g_nodes G) \<Longrightarrow>
   \<forall>ns. nn i = Inr ns \<longrightarrow> (\<forall>nb\<in>set ns. fst nb \<in> set (g_nodes G)) \<Longrightarrow>
   g_nodes (add_site_edges nn c i G) = g_nodes G"
  by (simp add: add_site_edges_def fold_add_neighbor_nodes split: sum.splits)

lemma fold_add_site_edges_nodes:
  "set is \<subseteq> set (g_nodes G) \<Longrightarrow>
   \<forall>i\<in>set is. \<forall>ns. nn i = Inr ns \<longrightarrow> (\<forall>nb\<in>set ns. fst nb \<in> set (g_nodes G)) \<Longrightarrow>
   g_nodes (fold (add_site_edges nn c) is G) = g_nodes G"
  by (induction "is" arbitrary: G) (simp_all add: add_site_edges_nodes)

lemma build_nodes:
  assumes "\<forall>i<length s. \<forall>ns. nn i = Inr ns \<longrightarrow> (\<forall>nb\<in>set ns. fst nb < length s)"
  shows "g_nodes (build_connectivity_graph s nn c) = [0..<length s]"
  unfolding build_connectivity_graph_def
  using assms by (subst fold_add_site_edges_nodes) (auto simp: fold_add_node_upt)

subsection \<open>Which pairs are joined\<close>

lemma has_edge_add_edge_new:
  "\<not> has_edge i j G \<Longrightarrow>
   has_edge u v (add_edge i j d G) \<longleftrightarrow> has_edge u v G \<or> (u = i \<and> v = j) \<or> (u = j \<and> v = i)"
  by (auto simp: add_edge_new_edges has_edge_def joins_def)

lemma has_edge_add_neighbor:
  "has_edge u v (add_neighbor c i nb G) \<longleftrightarrow>
   has_edge u v G \<or> (snd nb \<le> c \<and> ((u = i \<and> v = fst nb) \<or> (u = fst nb \<and> v = i)))"
  using has_edge_sym[of i "fst nb" G]
  by (auto simp: add_neighbor_def Let_def has_edge_add_edge_new)

lemma has_edge_fold_add_neighbor:
  "has_edge u v (fold (add_neighbor c i) ns G) \<longleftrightarrow>
   has_edge u v G \<or>
   (\<exists>nb\<in>set ns. snd nb \<le> c \<and> ((u = i \<and> v = fst nb) \<or> (u = fst nb \<and> v = i)))"
  by (induction ns arbitrary: G) (auto simp: has_edge_add_neighbor)

lemma has_edge_add_site_edges:
  "has_edge u v (add_site_edges nn c i G) \<longleftrightarrow>
   has_edge u v G \<or> (u = i \<and> reports nn c i v) \<or> (v = i \<and> reports nn c i u)"
  by (fastforce simp: add_site_edges_def has_edge_fold_add_neighbor reports_def split: sum.splits)

lemma has_edge_fold_add_site_edges:
  "has_edge u v (fold (add_site_edges nn c) is G) \<longleftrightarrow>
   has_edge u v G \<or> (u \<in> set is \<and> reports nn c u v) \<or> (v \<in> set is \<and> reports nn c v u)"
  by (induction "is" arbitrary: G) (auto simp: has_edge_add_site_edges)

lemma has_edge_build:
  "has_edge u v (build_connectivity_graph s nn c) \<longleftrightarrow>
   (u < length s \<and> reports nn c u v) \<or> (v < length s \<and> reports nn c v u)"
proof -
  have "\<not> has_edge u v (fold add_node [0..<length s] empty_graph)"
    by (simp add: has_edge_def empty_graph_def)
  then show ?thesis
    by (simp add: build_connectivity_graph_def has_edge_fold_add_site_edges)
qed

lemmas graph_eval =
  build_connectivity_graph_def add_site_edges_def add_neighbor_def add_edge_def
  add_node_def has_edge_def joins_def empty_graph_def Let_def

text \<open>
  Claim C2, as stated: every graph built by \<open>build_connectivity_graph\<close> is simple, in
  particular no edge joins a node to itself. This fails: for a cell with one atom whose
  neighbours are its own periodic images, the oracle reports atom 0 as a neighbour of
  atom 0, nothing in the loop compares \<open>i\<close> with \<open>j\<close>, and the graph gets the
  self-loop (0, 0).
\<close>

theorem build_connectivity_graph_self_loop:
  "build_connectivity_graph [''Po''] po_oracle 3.5 = \<lparr>g_nodes = [0], g_edges = [(0, 0, 3.35)]\<rparr>
   \<and> has_edge 0 0 (build_connectivity_graph [''Po''] po_oracle 3.5)
   \<and> degree (build_connectivity_graph [''Po''] po_oracle 3.5) 0 = 2"
  by (simp add: graph_eval po_oracle_def degree_def)

text \<open>
  Claim C2, amended: for every structure, oracle and cutoff, no two edges of the built
  graph join the same unordered pair of nodes; when the oracle only reports indices of
  atoms of the structure, the nodes are exactly the atom indices, so the node count is
  the atom count (atoms without edges included); and the graph has a self-loop at a node
  exactly when the oracle reports that atom as its own neighbour within the cutoff.
\<close>

theorem build_connectivity_graph_simple_up_to_loops:
  "distinct (map edge_pair (g_edges (build_connectivity_graph s nn c)))
   \<and> ((\<forall>i<length s. \<forall>ns. nn i = Inr ns \<longrightarrow> (\<forall>nb\<in>set ns. fst nb < length s)) \<longrightarrow>
        g_nodes (build_connectivity_graph s nn c) = [0..<length s]
        \<and> number_of_nodes (build_connectivity_graph s nn c) = length s)
   \<and> (\<forall>u. has_edge u u (build_connectivity_graph s nn c) \<longleftrightarrow> u < length s \<and> reports nn c u u)"
  using build_simple[of s nn c] build_nodes[of s nn c] has_edge_build[of _ _ s nn c]
  by (auto simp: number_of_nodes_def)

theorem build_connectivity_graph_simple_up_to_loops_witness:
  "distinct (map edge_pair (g_edges (build_connectivity_graph [''C'', ''C'', ''C''] chain_oracle 3.5)))
   \<and> g_nodes (build_connectivity_graph [''C'', ''C'', ''C''] chain_oracle 3.5) = [0, 1, 2]
   \<and> number_of_nodes (build_connectivity_graph [''C'', ''C'', ''C''] chain_oracle 3.5) = 3
   \<and> \<not> has_edge 1 1 (build_connectivity_graph [''C'', ''C'', ''C''] chain_oracle 3.5)"
proof -
  have in_range: "\<forall>i<length [''C'', ''C'', ''C'']. \<forall>ns. chain_oracle i = Inr ns \<longrightarrow>
      (\<forall>nb\<in>set ns. fst nb < length [''C'', ''C'', ''C''])"
    by (auto simp: chain_oracle_def split: if_splits)
  have no_loop: "\<not> reports chain_oracle 3.5 1 1"
    by (auto simp: reports_def chain_oracle_def)
  have upt3: "[0..<length [''C'', ''C'', ''C'']] = [0, 1, 2]"
    by (simp add: upt_rec)
  from build_connectivity_graph_simple_up_to_loops[of "[''C'', ''C'', ''C'']" chain_oracle "3.5"]
    in_range no_loop upt3
  show ?thesis by simp
qed

section \<open>Properties of the parity parameter\<close>

lemma py_min_ok: "xs \<noteq> [] \<Longrightarrow> \<exists>m. py_min xs = Inr m"
  by (cases xs) (simp_all add: py_min_def)

lemma py_max_ok: "xs \<noteq> [] \<Longrightarrow> \<exists>m. py_max xs = Inr m"
  by (cases xs) (simp_all add: py_max_def)

lemma odd_filter_degrees:
  "map fst (filter (\<lambda>nd. snd nd mod 2 = 1) (map (\<lambda>n. (n, degree G n)) ns)) =
   filter (\<lambda>n. odd (degree G n)) ns"
  by (induction ns) (auto simp: odd_iff_mod_2_eq_one)

lemma calculate_parity_returns:
  "\<exists>st. calculate_parity G =
     Inr (length (filter (\<lambda>n. odd (degree G n)) (g_nodes G)),
          filter (\<lambda>n. odd (degree G n)) (g_nodes G), st)"
proof (cases "g_nodes G = []")
  case True
  then show ?thesis by (simp add: calculate_parity_def)
next
  case False
  then have ne: "map snd (map (\<lambda>n. (n, degree G n)) (g_nodes G)) \<noteq> []"
    by simp
  from py_min_ok[OF ne] obtain mn
    where mn: "py_min (map snd (map (\<lambda>n. (n, degree G n)) (g_nodes G))) = Inr mn" ..
  from py_max_ok[OF ne] obtain mx
    where mx: "py_max (map snd (map (\<lambda>n. (n, degree G n)) (g_nodes G))) = Inr mx" ..
  show ?thesis
    unfolding calculate_parity_def Let_def odd_filter_degrees
    using False mn mx by simp
qed

lemma count_ends_no_loops:
  fixes es :: "(nat \<times> nat \<times> real) list"
  shows "\<forall>e\<in>set es. fst e \<noteq> fst (snd e) \<Longrightarrow>
    length (filter (\<lambda>e. fst e = n) es) + length (filter (\<lambda>e. fst (snd e) = n) es)
      = length (filter (\<lambda>e. fst e = n \<or> fst (snd e) = n) es)"
  by (induction es) auto

lemma degree_no_loops:
  "\<forall>e\<in>set (g_edges G). fst e \<noteq> fst (snd e) \<Longrightarrow>
   degree G n = length (filter (\<lambda>e. fst e = n \<or> fst (snd e) = n) (g_edges G))"
  by (simp add: degree_def count_ends_no_loops)

lemma chain_graph_eq:
  "chain_graph = \<lparr>g_nodes = [0, 1, 2], g_edges = [(0, 1, 1.5), (1, 2, 1.5)]\<rparr>"
  by (simp add: chain_graph_def graph_eval chain_oracle_def upt_rec)

lemma po_graph_eq: "po_graph = \<lparr>g_nodes = [0], g_edges = [(0, 0, 3.35)]\<rparr>"
  by (simp add: po_graph_def graph_eval po_oracle_def)

text \<open>
  Claim C3, as stated: for every graph K is the number of nodes whose degree, the count
  of incident edges, is odd. This fails on a graph with a self-loop, which the
  connectivity grapher builds for a cell of one atom: node 0 has one incident edge, an
  odd number, but \<open>G.degree()\<close> counts the loop twice, so \<open>calculate_parity\<close> returns
  K = 0 with no odd node and the parity test passes.
\<close>

theorem calculate_parity_self_loop:
  "g_edges po_graph = [(0, 0, 3.35)]
   \<and> incident_edges po_graph 0 = 1
   \<and> degree po_graph 0 = 2
   \<and> calculate_parity po_graph =
       Inr (0, [], \<lparr>total_vertices = 1, total_edges = 1, min_degree = 2, max_degree = 2,
                    avg_degree = 2, odd_degree_count = 0, even_degree_count = 1\<rparr>)
   \<and> parity_analyze_structure ''Po1'' [''Po''] po_oracle 3.5 =
       Inr \<lparr>pr_formula = ''Po1'', K_parity = 0, passes_parity_test = True, odd_vertices = [],
            graph_stats = \<lparr>total_vertices = 1, total_edges = 1, min_degree = 2, max_degree = 2,
                    avg_degree = 2, odd_degree_count = 0, even_degree_count = 1\<rparr>\<rparr>"
proof -
  have cp: "calculate_parity po_graph =
       Inr (0, [], \<lparr>total_vertices = 1, total_edges = 1, min_degree = 2, max_degree = 2,
                    avg_degree = 2, odd_degree_count = 0, even_degree_count = 1\<rparr>)"
    by (simp add: po_graph_eq calculate_parity_def degree_def py_min_def py_max_def np_mean_def
          number_of_nodes_def number_of_edges_def)
  have "parity_analyze_structure ''Po1'' [''Po''] po_oracle 3.5 =
       Inr \<lparr>pr_formula = ''Po1'', K_parity = 0, passes_parity_test = True, odd_vertices = [],
            graph_stats = \<lparr>total_vertices = 1, total_edges = 1, min_degree = 2, max_degree = 2,
                    avg_degree = 2, odd_degree_count = 0, even_degree_count = 1\<rparr>\<rparr>"
    unfolding parity_analyze_structure_def Let_def po_graph_def[symmetric] cp by simp
  with cp show ?thesis
    by (simp add: po_graph_eq incident_edges_def degree_def)
qed

text \<open>
  Claim C3, amended: for every graph, \<open>calculate_parity\<close> returns (without raising) K,
  the number of nodes whose degree as \<open>G.degree()\<close> gives it (the number of edge ends at
  the node, a self-loop counting twice) is odd, together with the list of exactly those
  nodes, in node order; on a graph without self-loops this degree is the count of
  incident edges; and \<open>analyze_structure\<close> reports these two values and passes the
  parity test if and only if K is 0.
\<close>

theorem calculate_parity_counts_odd_nodes:
  "(\<exists>st. calculate_parity G =
      Inr (length (filter (\<lambda>n. odd (degree G n)) (g_nodes G)),
           filter (\<lambda>n. odd (degree G n)) (g_nodes G), st))
   \<and> (distinct (g_nodes G) \<longrightarrow>
        length (filter (\<lambda>n. odd (degree G n)) (g_nodes G))
          = card {n \<in> set (g_nodes G). odd (degree G n)})
   \<and> ((\<forall>e\<in>set (g_edges G). fst e \<noteq> fst (snd e)) \<longrightarrow>
        (\<forall>n. degree G n = length (filter (\<lambda>e. fst e = n \<or> fst (snd e) = n) (g_edges G))))
   \<and> (\<exists>r. parity_analyze_structure formula s nn c = Inr r
          \<and> K_parity r = length (filter (\<lambda>n. odd (degree (build_connectivity_graph s nn c) n))
                                  (g_nodes (build_connectivity_graph s nn c)))
          \<and> odd_vertices r = filter (\<lambda>n. odd (degree (build_connectivity_graph s nn c) n))
                                  (g_nodes (build_connectivity_graph s nn c))
          \<and> (passes_parity_test r \<longleftrightarrow> K_parity r = 0))"
proof -
  obtain st where "calculate_parity (build_connectivity_graph s nn c) =
      Inr (length (filter (\<lambda>n. odd (degree (build_connectivity_graph s nn c) n))
                    (g_nodes (build_connectivity_graph s nn c))),
           filter (\<lambda>n. odd (degree (build_connectivity_graph s nn c) n))
                    (g_nodes (build_connectivity_graph s nn c)), st)"
    using calculate_parity_returns by blast
  then have analysis: "\<exists>r. parity_analyze_structure formula s nn c = Inr r
          \<and> K_parity r = length (filter (\<lambda>n. odd (degree (build_connectivity_graph s nn c) n))
                                  (g_nodes (build_connectivity_graph s nn c)))
          \<and> odd_vertices r = filter (\<lambda>n. odd (degree (build_connectivity_graph s nn c) n))
                                  (g_nodes (build_connectivity_graph s nn c))
          \<and> (passes_parity_test r \<longleftrightarrow> K_parity r = 0)"
    by (simp add: parity_analyze_structure_def Let_def)
  have counted: "distinct (g_nodes G) \<longrightarrow>
        length (filter (\<lambda>n. odd (degree G n)) (g_nodes G))
          = card {n \<in> set (g_nodes G). odd (degree G n)}"
    by (simp add: distinct_length_filter Int_def conj_commute)
  have incident: "(\<forall>e\<in>set (g_edges G). fst e \<noteq> fst (snd e)) \<longrightarrow>
        (\<forall>n. degree G n = length (filter (\<lambda>e. fst e = n \<or> fst (snd e) = n) (g_edges G)))"
    using degree_no_loops by blast
  from calculate_parity_returns counted incident analysis show ?thesis by blast
qed

theorem calculate_parity_counts_odd_nodes_witness:
  "distinct (g_nodes chain_graph)
   \<and> list_all (\<lambda>e. fst e \<noteq> fst (snd e)) (g_edges chain_graph)
   \<and> card {n \<in> set (g_nodes chain_graph). odd (degree chain_graph n)} = 2
   \<and> degree chain_graph 1 = length (filter (\<lambda>e. fst e = 1 \<or> fst (snd e) = 1) (g_edges chain_graph))"
proof -
  have d: "distinct (g_nodes chain_graph)"
    by (simp add: chain_graph_eq)
  have l: "\<forall>e\<in>set (g_edges chain_graph). fst e \<noteq> fst (snd e)"
    by (simp add: chain_graph_eq)
  have k: "length (filter (\<lambda>n. odd (degree chain_graph n)) (g_nodes chain_graph)) = 2"
    by (simp add: chain_graph_eq degree_def)
  have c: "length (filter (\<lambda>n. odd (degree chain_graph n)) (g_nodes chain_graph))
          = card {n \<in> set (g_nodes chain_graph). odd (degree chain_graph n)}"
    using calculate_parity_counts_odd_nodes[of chain_graph] d by blast
  have i: "degree chain_graph 1 = length (filter (\<lambda>e. fst e = 1 \<or> fst (snd e) = 1) (g_edges chain_graph))"
    using calculate_parity_counts_odd_nodes[of chain_graph] l by blast
  from d l k c i show ?thesis by (simp add: list_all_iff)
qed

text \<open>
  Claim C6: on the empty graph \<open>calculate_parity\<close> returns, without raising, K = 0, no
  odd node, and statistics whose minimum and maximum degree (and every other entry)
  are 0.
\<close>

theorem calculate_parity_empty_graph:
  "calculate_parity empty_graph =
     Inr (0, [], \<lparr>total_vertices = 0, total_edges = 0, min_degree = 0, max_degree = 0,
                  avg_degree = 0, odd_degree_count = 0, even_degree_count = 0\<rparr>)"
  by (simp add: calculate_parity_def empty_graph_def number_of_nodes_def number_of_edges_def)

section \<open>Properties of the light-bond selector\<close>


lemma unique_loop_subset: "set (unique_loop bs S) \<subseteq> set bs"
  by (induction bs arbitrary: S) auto





subsection \<open>Bonds start at light atoms\<close>

lemma neighbor_bonds_light:
  "element \<in> LIGHT_ATOMS \<Longrightarrow> b \<in> set (neighbor_bonds am st i element ns) \<Longrightarrow>
   atom1_element b \<in> LIGHT_ATOMS \<and> (both_light b \<longleftrightarrow> atom2_element b \<in> LIGHT_ATOMS)"
  by (induction ns) (auto simp: make_bond_def Let_def split: if_splits)

lemma site_bonds_light:
  "b \<in> set (site_bonds am st nn site) \<Longrightarrow>
   atom1_element b \<in> LIGHT_ATOMS \<and> (both_light b \<longleftrightarrow> atom2_element b \<in> LIGHT_ATOMS)"
  by (auto simp: site_bonds_def Let_def split: if_splits sum.splits dest: neighbor_bonds_light)

lemma collect_light_bonds_light:
  "b \<in> set (collect_light_bonds am st nn) \<Longrightarrow>
   atom1_element b \<in> LIGHT_ATOMS \<and> (both_light b \<longleftrightarrow> atom2_element b \<in> LIGHT_ATOMS)"
  unfolding collect_light_bonds_def using site_bonds_light by fastforce

lemma find_light_atom_bonds_light:
  "b \<in> set (find_light_atom_bonds am st nn) \<Longrightarrow>
   atom1_element b \<in> LIGHT_ATOMS \<and> (both_light b \<longleftrightarrow> atom2_element b \<in> LIGHT_ATOMS)"
  unfolding find_light_atom_bonds_def
  using unique_loop_subset collect_light_bonds_light by blast

subsection \<open>The selector on concrete structures\<close>

lemmas selector_eval =
  find_light_atom_bonds_def collect_light_bonds_def site_bonds_def LIGHT_ATOMS_def
  enumerate_eq_zip upt_rec make_bond_def calculate_reduced_mass_def Let_def bond_pair_def



lemma find_li_fe:
  "find_light_atom_bonds example_masses [''Li'', ''Fe''] pair_oracle = [li_fe_bond]"
  by (simp add: selector_eval pair_oracle_def example_masses_def li_fe_bond_def)

lemma find_fe_fe:
  "find_light_atom_bonds example_masses [''Fe'', ''Fe''] pair_oracle = []"
  by (simp add: selector_eval)

lemma find_star:
  "find_light_atom_bonds example_masses [''Li'', ''H'', ''H''] star_oracle = [long_bond, short_bond]"
  by (simp add: selector_eval star_oracle_def example_masses_def long_bond_def short_bond_def)



text \<open>
  Claim C9: for every bond returned by \<open>find_light_atom_bonds\<close>, \<open>atom1_element\<close> is in
  the fixed set of light atoms, and \<open>both_light\<close> holds if and only if \<open>atom2_element\<close> is
  in that set too.
\<close>

theorem find_light_atom_bonds_light_origin:
  "\<forall>b\<in>set (find_light_atom_bonds am st nn).
     atom1_element b \<in> LIGHT_ATOMS \<and> (both_light b \<longleftrightarrow> atom2_element b \<in> LIGHT_ATOMS)"
  using find_light_atom_bonds_light by blast

theorem find_light_atom_bonds_light_origin_witness:
  "find_light_atom_bonds example_masses [''Li'', ''Fe''] pair_oracle = [li_fe_bond]
   \<and> atom1_element li_fe_bond \<in> LIGHT_ATOMS
   \<and> both_light li_fe_bond = (atom2_element li_fe_bond \<in> LIGHT_ATOMS)"
proof -
  have "li_fe_bond \<in> set (find_light_atom_bonds example_masses [''Li'', ''Fe''] pair_oracle)"
    by (simp add: find_li_fe)
  then show ?thesis
    using find_light_atom_bonds_light_origin[of example_masses "[''Li'', ''Fe'']" pair_oracle]
    by (simp add: find_li_fe)
qed

section \<open>Properties of the bond-quantum analysis\<close>

lemma estimate_phonon_energy_defined:
  "d \<noteq> 0 \<Longrightarrow> mu \<noteq> 0 \<Longrightarrow> \<exists>e. estimate_phonon_energy d mu = Inr e"
  by (simp add: estimate_phonon_energy_def Let_def)

lemma set_energies_defined:
  "\<forall>b\<in>set bs. distance b \<noteq> 0 \<and> reduced_mass b \<noteq> 0 \<Longrightarrow>
   \<exists>es. set_energies bs = Inr es \<and>
     list_all2 (\<lambda>b e. estimate_phonon_energy (distance b) (reduced_mass b) = Inr (phonon_energy_eV e)
                     \<and> e = with_energy b (phonon_energy_eV e)) bs es"
proof (induction bs)
  case Nil
  show ?case by simp
next
  case (Cons b bs)
  then obtain es where es: "set_energies bs = Inr es"
     "list_all2 (\<lambda>b e. estimate_phonon_energy (distance b) (reduced_mass b) = Inr (phonon_energy_eV e)
                     \<and> e = with_energy b (phonon_energy_eV e)) bs es"
    by auto
  from Cons.prems obtain en where en: "estimate_phonon_energy (distance b) (reduced_mass b) = Inr en"
    using estimate_phonon_energy_defined[of "distance b" "reduced_mass b"] by auto
  have "phonon_energy_eV (with_energy b en) = en"
    by (simp add: with_energy_def)
  with es en show ?case by simp
qed

lemma py_max_Max: "xs \<noteq> [] \<Longrightarrow> py_max xs = Inr (Max (set xs))"
proof (cases xs)
  case Nil
  assume "xs \<noteq> []"
  with Nil show ?thesis by simp
next
  case (Cons a list)
  then show ?thesis
    using Max.set_eq_fold[of a list] by (simp add: py_max_def)
qed

lemma bq_analyze_structure_nonempty:
  assumes ne: "find_light_atom_bonds am st nn \<noteq> []"
      and es: "set_energies (find_light_atom_bonds am st nn) = Inr es"
  shows "\<exists>shortest.
    bq_analyze_structure thr am nn fp formula st =
      Inr [(''filepath'', PStr fp),
           (''formula'', PStr formula),
           (''light_bonds'', PBondList (sort_key distance es)),
           (''shortest_bond'', PBond shortest),
           (''phonon_energy_meV'', PNum (Max (phonon_energy_eV ` set es) * 1000)),
           (''phonon_energy_eV'', PNum (Max (phonon_energy_eV ` set es))),
           (''passes_energy_test'', PBool (Max (phonon_energy_eV ` set es) \<ge> thr)),
           (''critical_bonds'', PBondList (filter (\<lambda>b. phonon_energy_eV b \<ge> thr) (sort_key distance es))),
           (''threshold_meV'', PNum (thr * 1000))]"
proof -
  have "es \<noteq> []"
    using ne es by (cases "find_light_atom_bonds am st nn") (auto split: sum.splits)
  then have sne: "sort_key distance es \<noteq> []"
    by (metis length_sort list.size(3) length_0_conv)
  then obtain b0 rest where s: "sort_key distance es = b0 # rest"
    by (cases "sort_key distance es") auto
  have mx: "py_max (map phonon_energy_eV (sort_key distance es)) = Inr (Max (phonon_energy_eV ` set es))"
    using sne by (simp add: py_max_Max)
  show ?thesis
    unfolding bq_analyze_structure_def Let_def
    using ne es mx s by simp
qed

text \<open>
  Claim C1: when the selector finds no bond, the analysis reports a fail verdict with
  energy 0 and the command line exits with code 1. The first half holds, the second does
  not: for two iron atoms \<open>analyze_structure\<close> returns the short dictionary, which has no
  key \<open>threshold_meV\<close>; \<open>print_results\<close> reads that key, and so does the quiet branch of
  \<open>main\<close>; the KeyError is caught by \<open>main\<close>, and the exit code is 2 in both modes.
\<close>

theorem bq_main_no_light_bonds_exits_2:
  "bq_analyze_structure 0.081 example_masses pair_oracle ''Fe.cif'' ''Fe2'' [''Fe'', ''Fe''] =
     Inr [(''filepath'', PStr ''Fe.cif''),
          (''formula'', PStr ''Fe2''),
          (''light_bonds'', PBondList []),
          (''shortest_bond'', PNone),
          (''phonon_energy_meV'', PNum 0),
          (''phonon_energy_eV'', PNum 0),
          (''passes_energy_test'', PBool False),
          (''critical_bonds'', PBondList [])]
   \<and> bq_print_results [(''filepath'', PStr ''Fe.cif''),
          (''formula'', PStr ''Fe2''),
          (''light_bonds'', PBondList []),
          (''shortest_bond'', PNone),
          (''phonon_energy_meV'', PNum 0),
          (''phonon_energy_eV'', PNum 0),
          (''passes_energy_test'', PBool False),
          (''critical_bonds'', PBondList [])] = Inl (KeyError ''threshold_meV'')
   \<and> bq_main None False example_masses pair_oracle ''Fe.cif'' (Inr (''Fe2'', [''Fe'', ''Fe''])) = 2
   \<and> bq_main None True example_masses pair_oracle ''Fe.cif'' (Inr (''Fe2'', [''Fe'', ''Fe''])) = 2"
  by (simp add: bq_main_def py_bind_def bq_analyze_structure_def find_fe_fe bq_print_results_def
        getitem_def truthy_def)

lemma bq_main_empty_bonds:
  "find_light_atom_bonds am st nn = [] \<Longrightarrow>
   bq_main targ quiet am nn fp (Inr (formula, st)) = 2"
  by (simp add: bq_main_def py_bind_def bq_analyze_structure_def bq_print_results_def
        getitem_def truthy_def)

lemma bq_main_of_results:
  assumes "bq_analyze_structure (case targ of None \<Rightarrow> 0.081 | Some t \<Rightarrow> t) am nn fp formula st =
      Inr [(''filepath'', a), (''formula'', b), (''light_bonds'', c), (''shortest_bond'', d),
           (''phonon_energy_meV'', e), (''phonon_energy_eV'', f),
           (''passes_energy_test'', PBool p), (''critical_bonds'', g), (''threshold_meV'', h)]"
  shows "bq_main targ quiet am nn fp (Inr (formula, st)) = (if p then 0 else 1)"
  using assms
  by (simp add: bq_main_def py_bind_def bq_print_results_def getitem_def truthy_def Let_def)

lemma bq_analyze_structure_on_domain:
  assumes "find_light_atom_bonds am st nn \<noteq> []"
      and "\<forall>b\<in>set (find_light_atom_bonds am st nn). distance b \<noteq> 0 \<and> 0 < reduced_mass b"
  shows "\<exists>es results.
      set_energies (find_light_atom_bonds am st nn) = Inr es
    \<and> list_all2 (\<lambda>b e. estimate_phonon_energy (distance b) (reduced_mass b) = Inr (phonon_energy_eV e)
                      \<and> e = with_energy b (phonon_energy_eV e))
        (find_light_atom_bonds am st nn) es
    \<and> bq_analyze_structure thr am nn fp formula st = Inr results
    \<and> getitem results ''light_bonds'' = Inr (PBondList (sort_key distance es))
    \<and> sorted (map distance (sort_key distance es))
    \<and> mset (sort_key distance es) = mset es
    \<and> getitem results ''phonon_energy_eV'' = Inr (PNum (Max (phonon_energy_eV ` set es)))
    \<and> getitem results ''passes_energy_test'' = Inr (PBool (thr \<le> Max (phonon_energy_eV ` set es)))
    \<and> bq_main targ quiet am nn fp (Inr (formula, st)) =
        (if (case targ of None \<Rightarrow> 0.081 | Some t \<Rightarrow> t) \<le> Max (phonon_energy_eV ` set es) then 0 else 1)"
proof -
  from assms(2) have "\<forall>b\<in>set (find_light_atom_bonds am st nn). distance b \<noteq> 0 \<and> reduced_mass b \<noteq> 0"
    by auto
  from set_energies_defined[OF this] obtain es where
    es: "set_energies (find_light_atom_bonds am st nn) = Inr es" and
    all: "list_all2 (\<lambda>b e. estimate_phonon_energy (distance b) (reduced_mass b) = Inr (phonon_energy_eV e)
                      \<and> e = with_energy b (phonon_energy_eV e))
        (find_light_atom_bonds am st nn) es"
    by blast
  from bq_analyze_structure_nonempty[OF assms(1) es, of thr fp formula]
  obtain shortest where r0: "bq_analyze_structure thr am nn fp formula st =
      Inr [(''filepath'', PStr fp),
           (''formula'', PStr formula),
           (''light_bonds'', PBondList (sort_key distance es)),
           (''shortest_bond'', PBond shortest),
           (''phonon_energy_meV'', PNum (Max (phonon_energy_eV ` set es) * 1000)),
           (''phonon_energy_eV'', PNum (Max (phonon_energy_eV ` set es))),
           (''passes_energy_test'', PBool (Max (phonon_energy_eV ` set es) \<ge> thr)),
           (''critical_bonds'', PBondList (filter (\<lambda>b. phonon_energy_eV b \<ge> thr) (sort_key distance es))),
           (''threshold_meV'', PNum (thr * 1000))]"
    by blast
  define R where "R = [(''filepath'', PStr fp),
           (''formula'', PStr formula),
           (''light_bonds'', PBondList (sort_key distance es)),
           (''shortest_bond'', PBond shortest),
           (''phonon_energy_meV'', PNum (Max (phonon_energy_eV ` set es) * 1000)),
           (''phonon_energy_eV'', PNum (Max (phonon_energy_eV ` set es))),
           (''passes_energy_test'', PBool (Max (phonon_energy_eV ` set es) \<ge> thr)),
           (''critical_bonds'', PBondList (filter (\<lambda>b. phonon_energy_eV b \<ge> thr) (sort_key distance es))),
           (''threshold_meV'', PNum (thr * 1000))]"
  from r0 have r: "bq_analyze_structure thr am nn fp formula st = Inr R"
    by (simp only: R_def)
  from bq_analyze_structure_nonempty[OF assms(1) es, of "case targ of None \<Rightarrow> 0.081 | Some t \<Rightarrow> t" fp formula]
  obtain shortest' where r': "bq_analyze_structure (case targ of None \<Rightarrow> 0.081 | Some t \<Rightarrow> t) am nn fp formula st =
      Inr [(''filepath'', PStr fp),
           (''formula'', PStr formula),
           (''light_bonds'', PBondList (sort_key distance es)),
           (''shortest_bond'', PBond shortest'),
           (''phonon_energy_meV'', PNum (Max (phonon_energy_eV ` set es) * 1000)),
           (''phonon_energy_eV'', PNum (Max (phonon_energy_eV ` set es))),
           (''passes_energy_test'', PBool (Max (phonon_energy_eV ` set es) \<ge> (case targ of None \<Rightarrow> 0.081 | Some t \<Rightarrow> t))),
           (''critical_bonds'', PBondList (filter (\<lambda>b. phonon_energy_eV b \<ge> (case targ of None \<Rightarrow> 0.081 | Some t \<Rightarrow> t)) (sort_key distance es))),
           (''threshold_meV'', PNum ((case targ of None \<Rightarrow> 0.081 | Some t \<Rightarrow> t) * 1000))]"
    by blast
  have m: "bq_main targ quiet am nn fp (Inr (formula, st)) =
        (if (case targ of None \<Rightarrow> 0.081 | Some t \<Rightarrow> t) \<le> Max (phonon_energy_eV ` set es) then 0 else 1)"
    by (rule bq_main_of_results[OF r'])
  have g1: "getitem R ''light_bonds'' = Inr (PBondList (sort_key distance es))"
    by (simp add: getitem_def R_def)
  have g2: "getitem R ''phonon_energy_eV'' = Inr (PNum (Max (phonon_energy_eV ` set es)))"
    by (simp add: getitem_def R_def)
  have g3: "getitem R ''passes_energy_test'' = Inr (PBool (thr \<le> Max (phonon_energy_eV ` set es)))"
    by (simp add: getitem_def R_def)
  have s: "sorted (map distance (sort_key distance es))" by simp
  have p: "mset (sort_key distance es) = mset es" by simp
  from es all r g1 g2 g3 s p m show ?thesis by blast
qed

lemma calculate_reduced_mass_pos:
  "\<forall>el m. am el = Some m \<longrightarrow> 0 < m \<Longrightarrow> 0 < calculate_reduced_mass am e1 e2"
proof -
  assume pos: "\<forall>el m. am el = Some m \<longrightarrow> 0 < m"
  show ?thesis
  proof (cases "am e1")
    case None
    then show ?thesis by (simp add: calculate_reduced_mass_def)
  next
    case (Some m1)
    note m1 = this
    show ?thesis
    proof (cases "am e2")
      case None
      with m1 show ?thesis by (simp add: calculate_reduced_mass_def)
    next
      case (Some m2)
      from pos m1 Some have "0 < m1" "0 < m2" by auto
      then have "0 < m1 * m2 / (m1 + m2)" by simp
      with m1 Some show ?thesis by (simp add: calculate_reduced_mass_def)
    qed
  qed
qed

lemma neighbor_bonds_domain:
  "\<forall>el m. am el = Some m \<longrightarrow> 0 < m \<Longrightarrow> \<forall>nb\<in>set ns. snd nb \<noteq> 0 \<Longrightarrow>
   b \<in> set (neighbor_bonds am st i element ns) \<Longrightarrow> distance b \<noteq> 0 \<and> 0 < reduced_mass b"
  by (induction ns) (auto simp: make_bond_def Let_def calculate_reduced_mass_pos split: if_splits)

lemma site_bonds_domain:
  "\<forall>el m. am el = Some m \<longrightarrow> 0 < m \<Longrightarrow>
   \<forall>i ns. nn i = Inr ns \<longrightarrow> (\<forall>nb\<in>set ns. snd nb \<noteq> 0) \<Longrightarrow>
   b \<in> set (site_bonds am st nn site) \<Longrightarrow> distance b \<noteq> 0 \<and> 0 < reduced_mass b"
proof -
  assume pos: "\<forall>el m. am el = Some m \<longrightarrow> 0 < m"
    and nz: "\<forall>i ns. nn i = Inr ns \<longrightarrow> (\<forall>nb\<in>set ns. snd nb \<noteq> 0)"
    and b: "b \<in> set (site_bonds am st nn site)"
  from b obtain ns where ns: "nn (fst site) = Inr ns"
      and bn: "b \<in> set (neighbor_bonds am st (fst site) (snd site) ns)"
    by (cases "nn (fst site)") (auto simp: site_bonds_def Let_def split: if_splits)
  from nz ns have "\<forall>nb\<in>set ns. snd nb \<noteq> 0" by blast
  from neighbor_bonds_domain[OF pos this bn] show ?thesis .
qed

lemma find_light_atom_bonds_domain:
  assumes "\<forall>el m. am el = Some m \<longrightarrow> 0 < m"
      and "\<forall>i ns. nn i = Inr ns \<longrightarrow> (\<forall>nb\<in>set ns. snd nb \<noteq> 0)"
  shows "\<forall>b\<in>set (find_light_atom_bonds am st nn). distance b \<noteq> 0 \<and> 0 < reduced_mass b"
proof
  fix b assume "b \<in> set (find_light_atom_bonds am st nn)"
  then have "b \<in> set (collect_light_bonds am st nn)"
    unfolding find_light_atom_bonds_def using unique_loop_subset by blast
  then obtain site where "b \<in> set (site_bonds am st nn site)"
    by (auto simp: collect_light_bonds_def)
  from site_bonds_domain[OF assms this] show "distance b \<noteq> 0 \<and> 0 < reduced_mass b" .
qed

text \<open>
  Claim C4: when the selector returns a non-empty bond list (the atomic masses being positive
  and the distances of the oracle non-zero, so that the estimate is defined), the analysis stores the
  estimated energy in every bond, returns the bonds sorted by ascending distance (a
  permutation of them), reports the maximum of the energies as the phonon energy, and
  passes the energy test if and only if that maximum is at least the threshold; the
  command line then exits with 0 or 1 accordingly, the threshold being 0.081 unless
  \<open>--threshold\<close> is given.
\<close>

theorem bq_analyze_structure_aggregate:
  assumes "find_light_atom_bonds am st nn \<noteq> []"
      and "\<forall>el m. am el = Some m \<longrightarrow> 0 < m"
      and "\<forall>i ns. nn i = Inr ns \<longrightarrow> (\<forall>nb\<in>set ns. snd nb \<noteq> 0)"
  shows "\<exists>es results.
      set_energies (find_light_atom_bonds am st nn) = Inr es
    \<and> list_all2 (\<lambda>b e. estimate_phonon_energy (distance b) (reduced_mass b) = Inr (phonon_energy_eV e)
                      \<and> e = with_energy b (phonon_energy_eV e))
        (find_light_atom_bonds am st nn) es
    \<and> bq_analyze_structure thr am nn fp formula st = Inr results
    \<and> getitem results ''light_bonds'' = Inr (PBondList (sort_key distance es))
    \<and> sorted (map distance (sort_key distance es))
    \<and> mset (sort_key distance es) = mset es
    \<and> getitem results ''phonon_energy_eV'' = Inr (PNum (Max (phonon_energy_eV ` set es)))
    \<and> getitem results ''passes_energy_test'' = Inr (PBool (thr \<le> Max (phonon_energy_eV ` set es)))
    \<and> bq_main targ quiet am nn fp (Inr (formula, st)) =
        (if (case targ of None \<Rightarrow> 0.081 | Some t \<Rightarrow> t) \<le> Max (phonon_energy_eV ` set es) then 0 else 1)"
  by (rule bq_analyze_structure_on_domain[OF assms(1) find_light_atom_bonds_domain[OF assms(2,3)]])

theorem bq_analyze_structure_aggregate_witness:
  "\<exists>es results.
      set_energies [long_bond, short_bond] = Inr es
    \<and> map distance es = [3, 1.5]
    \<and> bq_analyze_structure 0.081 example_masses star_oracle ''LiH2.cif'' ''Li1 H2'' [''Li'', ''H'', ''H''] = Inr results
    \<and> getitem results ''light_bonds'' = Inr (PBondList (sort_key distance es))
    \<and> map distance (sort_key distance es) = [1.5, 3]
    \<and> getitem results ''phonon_energy_eV'' = Inr (PNum (Max (phonon_energy_eV ` set es)))
    \<and> getitem results ''passes_energy_test'' = Inr (PBool (0.081 \<le> Max (phonon_energy_eV ` set es)))"
proof -
  have ne: "find_light_atom_bonds example_masses [''Li'', ''H'', ''H''] star_oracle \<noteq> []"
    by (simp add: find_star)
  have pos: "\<forall>el m. example_masses el = Some m \<longrightarrow> 0 < m"
    by (auto simp: example_masses_def split: if_splits)
  have nz: "\<forall>i ns. star_oracle i = Inr ns \<longrightarrow> (\<forall>nb\<in>set ns. snd nb \<noteq> 0)"
    by (auto simp: star_oracle_def split: if_splits)
  from bq_analyze_structure_aggregate[OF ne pos nz, of "0.081" "''LiH2.cif''" "''Li1 H2''" None False]
  obtain es results where
    es: "set_energies [long_bond, short_bond] = Inr es" and
    all: "list_all2 (\<lambda>b e. estimate_phonon_energy (distance b) (reduced_mass b) = Inr (phonon_energy_eV e)
                      \<and> e = with_energy b (phonon_energy_eV e)) [long_bond, short_bond] es" and
    r: "bq_analyze_structure 0.081 example_masses star_oracle ''LiH2.cif'' ''Li1 H2'' [''Li'', ''H'', ''H''] = Inr results" and
    g1: "getitem results ''light_bonds'' = Inr (PBondList (sort_key distance es))" and
    g2: "getitem results ''phonon_energy_eV'' = Inr (PNum (Max (phonon_energy_eV ` set es)))" and
    g3: "getitem results ''passes_energy_test'' = Inr (PBool (0.081 \<le> Max (phonon_energy_eV ` set es)))"
    unfolding find_star by blast
  from all obtain e1 e2 where e12: "es = [e1, e2]"
      "e1 = with_energy long_bond (phonon_energy_eV e1)" "e2 = with_energy short_bond (phonon_energy_eV e2)"
    by (auto simp: list_all2_Cons1)
  have d1: "distance e1 = 3"
    by (subst e12(2)) (simp add: with_energy_def long_bond_def)
  have d2: "distance e2 = 1.5"
    by (subst e12(3)) (simp add: with_energy_def short_bond_def)
  have m: "map distance es = [3, 1.5]"
    using e12(1) d1 d2 by simp
  have s: "map distance (sort_key distance es) = [1.5, 3]"
    using e12(1) d1 d2 by simp
  have c: "set_energies [long_bond, short_bond] = Inr es
    \<and> map distance es = [3, 1.5]
    \<and> bq_analyze_structure 0.081 example_masses star_oracle ''LiH2.cif'' ''Li1 H2'' [''Li'', ''H'', ''H''] = Inr results
    \<and> getitem results ''light_bonds'' = Inr (PBondList (sort_key distance es))
    \<and> map distance (sort_key distance es) = [1.5, 3]
    \<and> getitem results ''phonon_energy_eV'' = Inr (PNum (Max (phonon_energy_eV ` set es)))
    \<and> getitem results ''passes_energy_test'' = Inr (PBool (0.081 \<le> Max (phonon_energy_eV ` set es)))"
    using es m r g1 s g2 g3 by (intro conjI)
  show ?thesis
    by (rule exI[of _ es], rule exI[of _ results], rule c)
qed

section \<open>The energy formula on real numbers\<close>

text \<open>
  On real numbers, for a positive reduced mass, the formula of
  \<open>estimate_phonon_energy\<close> is strictly decreasing in the distance. This is a fact about
  the formula only: the function of the script computes in IEEE doubles, which this
  theory does not represent.
\<close>

lemma estimate_phonon_energy_real_decreasing:
  assumes "0 < d1" "d1 < d2" "0 < m"
  shows "\<exists>e1 e2. estimate_phonon_energy d1 m = Inr e1 \<and> estimate_phonon_energy d2 m = Inr e2 \<and> e2 < e1"
proof -
  let ?c = "m * (1.036427 / 10 ^ 4)"
  have c: "0 < ?c" using assms(3) by simp
  have "d1 ^ 2 < d2 ^ 2"
    using assms(1,2) by (simp add: power_strict_mono)
  moreover have "0 < d1 ^ 2" using assms(1) by simp
  ultimately have "100 / d2 ^ 2 < 100 / d1 ^ 2"
    by (simp add: frac_less2)
  then have "(100 / d2 ^ 2) / ?c < (100 / d1 ^ 2) / ?c"
    using c by (rule divide_strict_right_mono)
  then have "sqrt ((100 / d2 ^ 2) / ?c) < sqrt ((100 / d1 ^ 2) / ?c)"
    by (simp only: real_sqrt_less_iff)
  moreover have "0 < HBAR" by (simp add: HBAR_def)
  ultimately have "HBAR * sqrt ((100 / d2 ^ 2) / ?c) < HBAR * sqrt ((100 / d1 ^ 2) / ?c)"
    by (simp only: mult_less_cancel_left_pos)
  then have "HBAR * sqrt ((100 / d2 ^ 2) / ?c) / pi < HBAR * sqrt ((100 / d1 ^ 2) / ?c) / pi"
    using pi_gt_zero by (rule divide_strict_right_mono)
  then have lt: "HBAR * sqrt ((100 / d2 ^ 2) / ?c) / pi * 1000 / 1000
      < HBAR * sqrt ((100 / d1 ^ 2) / ?c) / pi * 1000 / 1000"
    by simp
  have e1: "estimate_phonon_energy d1 m = Inr (HBAR * sqrt ((100 / d1 ^ 2) / ?c) / pi * 1000 / 1000)"
    using assms by (simp add: estimate_phonon_energy_def Let_def)
  have e2: "estimate_phonon_energy d2 m = Inr (HBAR * sqrt ((100 / d2 ^ 2) / ?c) / pi * 1000 / 1000)"
    using assms by (simp add: estimate_phonon_energy_def Let_def)
  from e1 e2 lt show ?thesis by blast
qed

section \<open>Properties of the phonon-stability checker\<close>

lemma parse_frequencies_error:
  "parse_frequencies fs p = Inl e \<Longrightarrow> \<exists>m. e = RuntimeError m"
  by (auto simp: parse_frequencies_def split: file_state.splits sum.splits if_splits)

lemma parse_frequencies_nonempty:
  "parse_frequencies fs p = Inr freqs \<Longrightarrow> freqs \<noteq> []"
  by (auto simp: parse_frequencies_def split: file_state.splits sum.splits if_splits)

lemma py_min_nonempty: "xs \<noteq> [] \<Longrightarrow> \<exists>m. py_min xs = Inr m"
  by (cases xs) (simp_all add: py_min_def)

lemma analyse_loop_error:
  "p \<in> set files \<Longrightarrow> parse_frequencies fs p = Inl e \<Longrightarrow>
   \<exists>m. analyse_loop fs files acc = Inl (RuntimeError m)"
proof (induction files arbitrary: acc)
  case Nil
  then show ?case by simp
next
  case (Cons f files)
  show ?case
  proof (cases "parse_frequencies fs f")
    case (Inl e')
    then show ?thesis using parse_frequencies_error[OF Inl] by auto
  next
    case (Inr freqs)
    then have "p \<noteq> f" using Cons.prems by auto
    with Cons.prems have in_rest: "p \<in> set files" by simp
    from parse_frequencies_nonempty[OF Inr] py_min_nonempty obtain m where "py_min freqs = Inr m"
      by blast
    with Inr Cons.IH[OF in_rest Cons.prems(2)] show ?thesis by simp
  qed
qed

lemma analyse_loop_ok:
  "\<forall>p\<in>set files. \<exists>freqs. parse_frequencies fs p = Inr freqs \<Longrightarrow>
   \<exists>m. analyse_loop fs files acc =
     Inr (fst acc + length (concat (map (file_freqs fs) files)),
          fst (snd acc) + length (filter (\<lambda>w. w < 0) (concat (map (file_freqs fs) files))),
          m)"
proof (induction files arbitrary: acc)
  case Nil
  show ?case by (cases acc) auto
next
  case (Cons f files)
  then obtain freqs where fr: "parse_frequencies fs f = Inr freqs" by auto
  from parse_frequencies_nonempty[OF fr] py_min_nonempty obtain m where m: "py_min freqs = Inr m"
    by blast
  have ff: "file_freqs fs f = freqs" by (simp add: file_freqs_def fr)
  from Cons.prems have "\<forall>p\<in>set files. \<exists>freqs. parse_frequencies fs p = Inr freqs" by simp
  from Cons.IH[OF this, of "(fst acc + length freqs,
                  fst (snd acc) + length (filter (\<lambda>w. w < 0) freqs),
                  min (snd (snd acc)) m)"]
  show ?case using fr m ff by (simp add: add.assoc)
qed

lemma stability_main_exit_codes:
  assumes "args \<noteq> []"
  shows "stability_main fs args =
     (if (\<exists>p\<in>set args. fs p = Missing) \<or> (\<exists>p\<in>set args. \<exists>e. parse_frequencies fs p = Inl e) then 2
      else if \<exists>w\<in>set (concat (map (file_freqs fs) args)). w < 0 then 1
      else 0)"
proof (cases "\<exists>p\<in>set args. fs p = Missing")
  case True
  then show ?thesis using assms by (auto simp: stability_main_def list_ex_iff)
next
  case nomiss: False
  show ?thesis
  proof (cases "\<exists>p\<in>set args. \<exists>e. parse_frequencies fs p = Inl e")
    case True
    then obtain p e where "p \<in> set args" "parse_frequencies fs p = Inl e" by blast
    from analyse_loop_error[OF this] obtain m where "analyse_files fs args = Inl (RuntimeError m)"
      unfolding analyse_files_def by blast
    with True show ?thesis by (simp add: stability_main_def)
  next
    case False
    then have "\<forall>p\<in>set args. \<exists>freqs. parse_frequencies fs p = Inr freqs"
      by (metis sum.exhaust_sel sum.collapse)
    from analyse_loop_ok[OF this, of "(0, 0, 10 ^ 9)"] obtain m where
      "analyse_files fs args =
        Inr (length (concat (map (file_freqs fs) args)),
             length (filter (\<lambda>w. w < 0) (concat (map (file_freqs fs) args))), m)"
      unfolding analyse_files_def by auto
    with False nomiss assms show ?thesis
      by (auto simp: stability_main_def list_ex_iff filter_empty_conv simp del: set_concat)
  qed
qed

lemma scan_lines_no_match:
  "list_all (\<lambda>l. FREQ_REGEX_search l = None) ls \<Longrightarrow> scan_lines ls = Inr []"
  by (induction ls) simp_all

text \<open>
  Claim C10: when a file among the arguments can be read and none of its lines matches
  the regular expression, \<open>parse_frequencies\<close> raises the RuntimeError "No frequencies
  found" and the exit code is 2, whatever the other arguments are.
\<close>

theorem no_frequency_line_exits_2:
  assumes "fs p = Lines ls"
      and "list_all (\<lambda>l. FREQ_REGEX_search l = None) ls"
      and "p \<in> set args"
  shows "parse_frequencies fs p = Inl (RuntimeError ''No frequencies found'')
       \<and> stability_main fs args = 2"
proof -
  have pf: "parse_frequencies fs p = Inl (RuntimeError ''No frequencies found'')"
    using assms(1) scan_lines_no_match[OF assms(2)] by (simp add: parse_frequencies_def)
  from assms(3) have "args \<noteq> []" by auto
  from stability_main_exit_codes[OF this, of fs] pf assms(3)
  have "stability_main fs args = 2" by auto
  with pf show ?thesis by simp
qed

lemmas regex_eval = match_value_def is_space_def is_digit_def class_char_def

lemma search_text1: "FREQ_REGEX_search ''Dynamical matrix file'' = None"
  by (simp add: regex_eval)

lemma search_text2: "FREQ_REGEX_search ''no modes'' = None"
  by (simp add: regex_eval)

lemma search_spaced: "FREQ_REGEX_search ''freq(1) = -3.0 [cm-1]'' = None"
  by (simp add: regex_eval)

lemma search_tight: "FREQ_REGEX_search ''freq(1)= -3.0 [cm-1]'' = Some ''-3.0''"
  by (simp add: regex_eval)

lemma search_qe: "FREQ_REGEX_search ''     freq (    1) =      -0.500000 [THz] =     -16.68 [cm-1]'' = None"
  by (simp add: regex_eval)

lemma float_neg3: "py_float ''-3.0'' = Inr (- 3)"
  by (simp add: py_float_def is_digit_def digits_val_def)

theorem no_frequency_line_exits_2_witness:
  "parse_frequencies dyn_files ''text.dyn'' = Inl (RuntimeError ''No frequencies found'')
   \<and> stability_main dyn_files [''stable.dyn'', ''text.dyn''] = 2"
proof -
  have a: "dyn_files ''text.dyn'' = Lines [''Dynamical matrix file'', ''no modes'']"
    by (simp add: dyn_files_def)
  have b: "list_all (\<lambda>l. FREQ_REGEX_search l = None) [''Dynamical matrix file'', ''no modes'']"
    by (simp add: search_text1 search_text2)
  have c: "''text.dyn'' \<in> set [''stable.dyn'', ''text.dyn'']"
    by simp
  from no_frequency_line_exits_2[of dyn_files "''text.dyn''" "[''Dynamical matrix file'', ''no modes'']"
      "[''stable.dyn'', ''text.dyn'']", OF a b c]
  show ?thesis .
qed

text \<open>
  Claim C8: frequencies are taken from lines of the form \<open>freq(<idx>) = <float>\<close>, and the
  exit code is 1 when one of them is negative. The regular expression of the script asks
  for \<open>)=\<close> with nothing in between, so it does not match such a line, nor a line as
  ph.x prints it (\<open>freq (    1) =  ...\<close>): a file of such lines counts as having no
  frequencies and the exit code is 2. Without the blank the same frequencies give 1,
  and a file without a negative frequency gives 0, as \<open>stability_main_exit_codes\<close>
  states in general.
\<close>

theorem stability_main_spaced_line_exits_2:
  "FREQ_REGEX_search ''freq(1) = -3.0 [cm-1]'' = None
   \<and> stability_main dyn_files [''spaced.dyn''] = 2
   \<and> stability_main dyn_files [''qe.dyn''] = 2
   \<and> FREQ_REGEX_search ''freq(1)= -3.0 [cm-1]'' = Some ''-3.0''
   \<and> stability_main dyn_files [''tight.dyn''] = 1
   \<and> stability_main dyn_files [''stable.dyn''] = 0"
  by (simp add: stability_main_def analyse_files_def parse_frequencies_def dyn_files_def
       search_spaced search_tight search_qe regex_eval py_float_def digits_val_def py_min_def)

end
